theory Spec2Isabelle
  imports Main
begin

section \<open>Values\<close>

text \<open>
  JavaScript strings are modelled as \<open>string\<close>; a \<open>char\<close> stands for a code unit in the
  range U+0000..U+00FF.  A value of unknown shape (the body of an upstream error
  response, and any response body) is a \<open>json\<close> value.  \<open>JNull\<close> is \<open>null\<close>; an absent
  (\<open>undefined\<close>) property is \<open>None\<close>.  \<open>JNum\<close> is a number, of which only being zero or
  not is ever tested.  The property list of an object holds each name once, as
  \<open>JSON.parse\<close> gives it.  An \<open>object\<close> is the property list of an object literal.
\<close>

datatype json =
    JNull
  | JBool bool
  | JNum int
  | JStr string
  | JArr "json list"
  | JObj "(string \<times> json) list"

type_synonym object = "(string \<times> json) list"

text \<open>Property access \<open>v.k\<close> on a value that is not \<open>null\<close>, for the property names the
  code reads (\<open>length\<close> apart): only an object carries them.\<close>

fun get_prop :: "json \<Rightarrow> string \<Rightarrow> json option" where
  "get_prop (JObj kvs) k = map_of kvs k"
| "get_prop _ k = None"

text \<open>
  Truthiness of a value, as \<open>if (v)\<close> and \<open>!v\<close> test it: \<open>null\<close>, \<open>false\<close>, zero and the
  empty string are falsy; every array and object is truthy.
\<close>

fun truthy :: "json \<Rightarrow> bool" where
  "truthy JNull = False"
| "truthy (JBool b) = b"
| "truthy (JNum n) = (n \<noteq> 0)"
| "truthy (JStr s) = (s \<noteq> [])"
| "truthy (JArr xs) = True"
| "truthy (JObj kvs) = True"

text \<open>\<open>if (cached)\<close> on what a look-up gave: the value when it is there and truthy.\<close>

definition if_truthy :: "json option \<Rightarrow> json option" where
  "if_truthy found =
     (case found of
        None \<Rightarrow> None
      | Some v \<Rightarrow> (if truthy v then Some v else None))"

section \<open>Error classifier (services/target/api.ts, handleApiError)\<close>

text \<open>
  The class \<open>ApiError\<close> is declared in \<open>../../types\<close>; its constructor takes the message,
  the code and the details object, which is all the client uses of it.  The code is a
  string or, in the fall-through branch, the numeric HTTP status.
\<close>

datatype error_code = CodeStr string | CodeNum int

record error_details =
  d_context :: "string option"
  d_status :: "int option"
  d_retryAfter :: "string option"
  d_originalError :: "string option"

record api_error =
  err_message :: string
  err_code :: error_code
  err_details :: error_details

record http_response =
  resp_status :: int
  resp_data :: json
  resp_headers :: "(string \<times> string) list"

record axios_error =
  ae_message :: string
  ae_response :: "http_response option"

text \<open>What a \<open>catch\<close> block of the client can receive: an axios error, or anything else
  (kept as its \<open>String(error)\<close>).\<close>

datatype thrown = AxiosError axios_error | OtherError string

text \<open>\<open>isErrorResponse(d)\<close>: \<open>typeof d === 'object' && d !== null\<close>.\<close>

fun isErrorResponse :: "json \<Rightarrow> bool" where
  "isErrorResponse (JObj _) = True"
| "isErrorResponse (JArr _) = True"
| "isErrorResponse _ = False"

text \<open>\<open>isErrorResponse(data) ? data.error?.code : undefined\<close>\<close>

definition errorCode_of :: "json \<Rightarrow> json option" where
  "errorCode_of d =
     (if isErrorResponse d then
        (case get_prop d ''error'' of
           None \<Rightarrow> None
         | Some JNull \<Rightarrow> None
         | Some e \<Rightarrow> get_prop e ''code'')
      else None)"

text \<open>A string is truthy when it is not empty, a number when it is not zero.\<close>

definition context_suffix :: "string option \<Rightarrow> string" where
  "context_suffix context =
     (case context of
        None \<Rightarrow> ''''
      | Some c \<Rightarrow> (if c = '''' then '''' else '': '' @ c))"

definition handleApiError :: "thrown \<Rightarrow> string option \<Rightarrow> api_error" where
  "handleApiError error context =
     (case error of
        AxiosError axiosError \<Rightarrow>
          (let status = map_option resp_status (ae_response axiosError);
               errorCode = (case ae_response axiosError of
                              None \<Rightarrow> None
                            | Some r \<Rightarrow> errorCode_of (resp_data r))
           in if status = Some 404 \<or> errorCode = Some (JStr ''PRODUCT_NOT_FOUND'') then
                \<lparr>err_message = ''Product not found'' @ context_suffix context,
                 err_code = CodeStr ''PRODUCT_NOT_FOUND'',
                 err_details = \<lparr>d_context = context, d_status = status,
                                d_retryAfter = None, d_originalError = None\<rparr>\<rparr>
              else if status = Some 429 \<or> errorCode = Some (JStr ''RATE_LIMIT_EXCEEDED'') then
                \<lparr>err_message = ''Rate limit exceeded'',
                 err_code = CodeStr ''RATE_LIMIT_EXCEEDED'',
                 err_details = \<lparr>d_context = context, d_status = None,
                                d_retryAfter =
                                  (case ae_response axiosError of
                                     None \<Rightarrow> None
                                   | Some r \<Rightarrow> map_of (resp_headers r) ''retry-after''),
                                d_originalError = None\<rparr>\<rparr>
              else if status = Some 401 \<or> status = Some 403 then
                \<lparr>err_message = ''Invalid API key or unauthorized'',
                 err_code = CodeStr ''UNAUTHORIZED'',
                 err_details = \<lparr>d_context = context, d_status = status,
                                d_retryAfter = None, d_originalError = None\<rparr>\<rparr>
              else
                \<lparr>err_message = ae_message axiosError,
                 err_code = (case status of
                               None \<Rightarrow> CodeStr ''NETWORK_ERROR''
                             | Some n \<Rightarrow> (if n = 0 then CodeStr ''NETWORK_ERROR'' else CodeNum n)),
                 err_details = \<lparr>d_context = context, d_status = None,
                                d_retryAfter = None,
                                d_originalError = Some (ae_message axiosError)\<rparr>\<rparr>)
      | OtherError s \<Rightarrow>
          \<lparr>err_message = ''Unknown error occurred'',
           err_code = CodeStr ''UNKNOWN_ERROR'',
           err_details = \<lparr>d_context = context, d_status = None,
                          d_retryAfter = None, d_originalError = Some s\<rparr>\<rparr>)"

section \<open>Helper functions (services/target/api.ts)\<close>

text \<open>\<open>\d\<close> of a JavaScript regular expression: one of the ten ASCII digits.\<close>

definition is_digit :: "char \<Rightarrow> bool" where
  "is_digit c = (c \<in> set ''0123456789'')"

text \<open>The pattern \<open>\/A-(\d{8})\<close> anchored at the head of the string: the three
  characters \<open>/A-\<close>, then eight digits (the capture group).\<close>

definition match_here :: "string \<Rightarrow> string option" where
  "match_here s =
     (if take 3 s = ''/A-'' \<and> length (take 8 (drop 3 s)) = 8
         \<and> list_all is_digit (take 8 (drop 3 s))
      then Some (take 8 (drop 3 s)) else None)"

text \<open>\<open>url.match(/\/A-(\d{8})/)\<close> tries every start position from the left; the
  result is the first match's group, or \<open>null\<close> (here \<open>None\<close>).\<close>

fun extractTcinFromUrl :: "string \<Rightarrow> string option" where
  "extractTcinFromUrl [] = None"
| "extractTcinFromUrl (c # cs) =
     (case match_here (c # cs) of
        Some tcin \<Rightarrow> Some tcin
      | None \<Rightarrow> extractTcinFromUrl cs)"

definition generateProductUrl :: "string \<Rightarrow> string" where
  "generateProductUrl tcin = ''https://www.target.com/p/-/A-'' @ tcin"

text \<open>\<open>/^\d{8,10}$/.test(tcin)\<close>\<close>

definition isValidTcin :: "string \<Rightarrow> bool" where
  "isValidTcin tcin = (8 \<le> length tcin \<and> length tcin \<le> 10 \<and> list_all is_digit tcin)"

section \<open>Cache store (utils/cache)\<close>

text \<open>
  Modelled from the spec: the cache instances and the functions \<open>getCachedValue\<close> and
  \<open>setCachedValue\<close> of \<open>../../utils/cache\<close> are not among the sources.  A cache entry is a
  value with its expiry timestamp; an instance has its own default time to live.  Time is
  a count of clock ticks.
\<close>

record 'v cache =
  entries :: "string \<Rightarrow> ('v \<times> nat) option"
  defaultTTL :: nat

text \<open>Modelled from the spec: \<open>get(key)\<close> returns the value, or absent once the entry's
  age exceeds its time to live; staleness is checked at read time.\<close>

definition getCachedValue :: "'v cache \<Rightarrow> nat \<Rightarrow> string \<Rightarrow> 'v option" where
  "getCachedValue c now key =
     (case entries c key of
        None \<Rightarrow> None
      | Some (v, expiry) \<Rightarrow> (if now \<le> expiry then Some v else None))"

text \<open>Modelled from the spec: \<open>set(key, value, ttl)\<close>; the client passes no time to live,
  so the instance's default applies.\<close>

definition setCachedValue :: "'v cache \<Rightarrow> nat \<Rightarrow> string \<Rightarrow> 'v \<Rightarrow> 'v cache" where
  "setCachedValue c now key v = c\<lparr>entries := (entries c)(key \<mapsto> (v, now + defaultTTL c))\<rparr>"

section \<open>API client (services/target/api.ts)\<close>

text \<open>
  The response types of \<open>../../types\<close> are not among the sources, and nothing checks
  them at run time: what the client caches and returns is \<open>response.data\<close> as axios
  delivers it, a \<open>json\<close> value (the parsed body, or the empty string for an empty
  body; it is never \<open>undefined\<close>).
\<close>

text \<open>What \<open>axiosInstance.get('', {params, timeout})\<close> sends: the query parameters in the
  order of the object literal, and the timeout in milliseconds.\<close>

record request =
  req_params :: "(string \<times> string) list"
  req_timeout :: nat

text \<open>The upstream service: the body of a successful response, or what axios throws.\<close>

type_synonym upstream = "request \<Rightarrow> thrown + json"

text \<open>\<open>ApiRequestOptions\<close>; an absent options argument, or an absent \<open>skipCache\<close>, reads as
  \<open>skipCache = False\<close>.\<close>

record request_options =
  skipCache :: bool
  timeout :: "nat option"

text \<open>
  A JavaScript number as far as the page of a search needs it: \<open>NaN\<close>, an integer, or an
  infinity.
\<close>

datatype number = NaN | Fin int | PosInf | NegInf

record search_options = request_options +
  page :: "number option"
  sortBy :: "string option"

definition no_options :: request_options where
  "no_options = \<lparr>skipCache = False, timeout = None\<rparr>"

text \<open>The process environment and the two key generators imported from
  \<open>../../utils/cache\<close> (not among the sources, taken as parameters).\<close>

record env =
  API_KEY :: string
  NODE_ENV :: string
  generateProductCacheKey :: "string \<Rightarrow> string"
  generateProductStockCacheKey :: "string \<Rightarrow> string \<Rightarrow> string"

text \<open>The module's state: the two cache instances, and the requests sent upstream so far.\<close>

record api_state =
  productCache :: "json cache"
  stockCache :: "json cache"
  requests :: "request list"

definition DEFAULT_TIMEOUT :: nat where
  "DEFAULT_TIMEOUT = 10000"

text \<open>\<open>options?.timeout || DEFAULT_TIMEOUT\<close>\<close>

definition timeout_of :: "('a request_options_scheme) \<Rightarrow> nat" where
  "timeout_of options =
     (case timeout options of
        None \<Rightarrow> DEFAULT_TIMEOUT
      | Some t \<Rightarrow> (if t = 0 then DEFAULT_TIMEOUT else t))"

definition axios_get :: "upstream \<Rightarrow> request \<Rightarrow> api_state \<Rightarrow> (thrown + json) \<times> api_state" where
  "axios_get up req s = (up req, s\<lparr>requests := requests s @ [req]\<rparr>)"

text \<open>
  Each operation is taken at one clock reading \<open>now\<close>.  The development-mode logging has
  no effect on the result and is left out.  The \<open>_storeId\<close> argument of \<open>checkStoreStock\<close>
  is the third parameter, as in the source.  The cached value is returned only when it
  is truthy (\<open>if (cached)\<close>); otherwise the request goes upstream.
\<close>

definition checkStoreStock ::
  "env \<Rightarrow> upstream \<Rightarrow> nat \<Rightarrow> string \<Rightarrow> string \<Rightarrow> string option \<Rightarrow> request_options
     \<Rightarrow> api_state \<Rightarrow> (api_error + json) \<times> api_state" where
  "checkStoreStock env up now tcin zipCode storeId options s =
     (case (if \<not> skipCache options
            then if_truthy (getCachedValue (stockCache s) now
                              (generateProductStockCacheKey env zipCode tcin))
            else None) of
        Some cached \<Rightarrow> (Inr cached, s)
      | None \<Rightarrow>
          (case axios_get up
                  \<lparr>req_params = [(''api_key'', API_KEY env), (''type'', ''store_stock''),
                                  (''tcin'', tcin), (''store_stock_zipcode'', zipCode)],
                   req_timeout = timeout_of options\<rparr> s of
             (Inr data, s1) \<Rightarrow>
               (Inr data,
                s1\<lparr>stockCache := setCachedValue (stockCache s1) now
                                     (generateProductStockCacheKey env zipCode tcin) data\<rparr>)
           | (Inl error, s1) \<Rightarrow> (Inl (handleApiError error (Some (''TCIN '' @ tcin))), s1)))"


definition getFullProductByTcin ::
  "env \<Rightarrow> upstream \<Rightarrow> nat \<Rightarrow> string \<Rightarrow> request_options
     \<Rightarrow> api_state \<Rightarrow> (api_error + json) \<times> api_state" where
  "getFullProductByTcin env up now tcin options s =
     (case (if \<not> skipCache options
            then if_truthy (getCachedValue (productCache s) now (''full_product_'' @ tcin))
            else None) of
        Some cached \<Rightarrow> (Inr cached, s)
      | None \<Rightarrow>
          (case axios_get up
                  \<lparr>req_params = [(''api_key'', API_KEY env), (''type'', ''product''),
                                  (''tcin'', tcin)],
                   req_timeout = timeout_of options\<rparr> s of
             (Inr data, s1) \<Rightarrow>
               (Inr data,
                s1\<lparr>productCache := setCachedValue (productCache s1) now
                                       (''full_product_'' @ tcin) data\<rparr>)
           | (Inl error, s1) \<Rightarrow> (Inl (handleApiError error (Some (''TCIN '' @ tcin))), s1)))"

definition getProductByGtin ::
  "env \<Rightarrow> upstream \<Rightarrow> nat \<Rightarrow> string \<Rightarrow> request_options
     \<Rightarrow> api_state \<Rightarrow> (api_error + json) \<times> api_state" where
  "getProductByGtin env up now gtin options s =
     (case (if \<not> skipCache options
            then if_truthy (getCachedValue (productCache s) now (''product_gtin_'' @ gtin))
            else None) of
        Some cached \<Rightarrow> (Inr cached, s)
      | None \<Rightarrow>
          (case axios_get up
                  \<lparr>req_params = [(''api_key'', API_KEY env), (''type'', ''product''),
                                  (''gtin'', gtin)],
                   req_timeout = timeout_of options\<rparr> s of
             (Inr data, s1) \<Rightarrow>
               (Inr data,
                s1\<lparr>productCache := setCachedValue (productCache s1) now
                                       (''product_gtin_'' @ gtin) data\<rparr>)
           | (Inl error, s1) \<Rightarrow> (Inl (handleApiError error (Some (''GTIN '' @ gtin))), s1)))"

subsection \<open>Search\<close>

text \<open>\<open>n.toString()\<close> for an integer: its decimal digits (JavaScript prints the integers
  below \<open>10^21\<close> this way), with a minus sign when negative.\<close>

definition digit_char :: "nat \<Rightarrow> char" where
  "digit_char n = ''0123456789'' ! n"

fun digits_of :: "nat \<Rightarrow> string" where
  "digits_of n = (if n < 10 then [digit_char n] else digits_of (n div 10) @ [digit_char (n mod 10)])"

declare digits_of.simps [simp del]

definition toString :: "int \<Rightarrow> string" where
  "toString i = (if i < 0 then ''-'' @ digits_of (nat (- i)) else digits_of (nat i))"

text \<open>\<open>n.toString()\<close> for a number.\<close>

definition number_toString :: "number \<Rightarrow> string" where
  "number_toString n =
     (case n of
        NaN \<Rightarrow> ''NaN''
      | Fin i \<Rightarrow> toString i
      | PosInf \<Rightarrow> ''Infinity''
      | NegInf \<Rightarrow> ''-Infinity'')"

text \<open>\<open>options?.page || 1\<close>: an absent page, \<open>NaN\<close> and zero are falsy.\<close>

definition page_of :: "search_options \<Rightarrow> number" where
  "page_of options =
     (case page options of
        None \<Rightarrow> Fin 1
      | Some NaN \<Rightarrow> Fin 1
      | Some (Fin n) \<Rightarrow> (if n = 0 then Fin 1 else Fin n)
      | Some PosInf \<Rightarrow> PosInf
      | Some NegInf \<Rightarrow> NegInf)"

text \<open>\<open>options?.sortBy\<close> as a condition: present and not the empty string.\<close>

definition sortBy_of :: "search_options \<Rightarrow> string option" where
  "sortBy_of options =
     (case sortBy options of
        None \<Rightarrow> None
      | Some k \<Rightarrow> (if k = [] then None else Some k))"

text \<open>The template literal
  \<open>search_${searchTerm}_page${page}_${options?.sortBy || 'default'}\<close>, written twice in
  \<open>searchProducts\<close>.\<close>

definition search_cacheKey :: "string \<Rightarrow> search_options \<Rightarrow> string" where
  "search_cacheKey searchTerm options =
     ''search_'' @ searchTerm @ ''_page'' @ number_toString (page_of options) @ ''_''
       @ (case sortBy_of options of None \<Rightarrow> ''default'' | Some k \<Rightarrow> k)"

text \<open>The \<open>params\<close> object of \<open>searchProducts\<close>, with \<open>sort_by\<close> added when a sort key is
  given.\<close>

definition search_params :: "env \<Rightarrow> string \<Rightarrow> search_options \<Rightarrow> (string \<times> string) list" where
  "search_params env searchTerm options =
     [(''api_key'', API_KEY env), (''type'', ''search''), (''search_term'', searchTerm),
      (''page'', number_toString (page_of options))]
     @ (case sortBy_of options of None \<Rightarrow> [] | Some k \<Rightarrow> [(''sort_by'', k)])"

definition searchProducts ::
  "env \<Rightarrow> upstream \<Rightarrow> nat \<Rightarrow> string \<Rightarrow> search_options
     \<Rightarrow> api_state \<Rightarrow> (api_error + json) \<times> api_state" where
  "searchProducts env up now searchTerm options s =
     (case (if \<not> skipCache options
            then if_truthy (getCachedValue (productCache s) now
                              (search_cacheKey searchTerm options))
            else None) of
        Some cached \<Rightarrow> (Inr cached, s)
      | None \<Rightarrow>
          (case axios_get up
                  \<lparr>req_params = search_params env searchTerm options,
                   req_timeout = timeout_of options\<rparr> s of
             (Inr data, s1) \<Rightarrow>
               (Inr data,
                s1\<lparr>productCache := setCachedValue (productCache s1) now
                                       (search_cacheKey searchTerm options) data\<rparr>)
           | (Inl error, s1) \<Rightarrow>
               (Inl (handleApiError error (Some (''Search: '' @ searchTerm))), s1)))"

subsection \<open>Bulk operations\<close>

text \<open>
  \<open>Promise.all\<close>: the list of the results when every promise is fulfilled, the rejection
  otherwise.
\<close>

fun promise_all :: "('e + 'a) list \<Rightarrow> 'e + 'a list" where
  "promise_all [] = Inr []"
| "promise_all (x # xs) =
     (case x of
        Inl e \<Rightarrow> Inl e
      | Inr v \<Rightarrow> (case promise_all xs of Inl e \<Rightarrow> Inl e | Inr vs \<Rightarrow> Inr (v # vs)))"

text \<open>The object \<open>{ tcin, stock, error }\<close> (or \<open>{ tcin, product, error }\<close>) that the callback
  of \<open>tcins.map\<close> returns.\<close>

record item_result =
  item_tcin :: string
  item_value :: "json option"
  item_error :: "api_error option"

text \<open>
  The callbacks of \<open>tcins.map\<close> run one after the other up to their first suspension, so
  every cache look-up of a bulk call is made in the state \<open>s\<close> in which the call starts.
  A callback catches whatever its single-item operation throws, so its promise is always
  fulfilled.
\<close>

definition stock_item ::
  "env \<Rightarrow> upstream \<Rightarrow> nat \<Rightarrow> string \<Rightarrow> string option \<Rightarrow> request_options \<Rightarrow> api_state
     \<Rightarrow> string \<Rightarrow> api_error + item_result" where
  "stock_item env up now zipCode storeId options s tcin =
     (case fst (checkStoreStock env up now tcin zipCode storeId options s) of
        Inr stock \<Rightarrow> Inr \<lparr>item_tcin = tcin, item_value = Some stock, item_error = None\<rparr>
      | Inl error \<Rightarrow> Inr \<lparr>item_tcin = tcin, item_value = None, item_error = Some error\<rparr>)"


text \<open>
  The body of \<open>results.forEach\<close>.  The parameter \<open>numberToString\<close> stands for the
  JavaScript built-ins \<open>Number\<close> and \<open>toString\<close>: it gives \<open>Number(tcin).toString()\<close>, and
  \<open>None\<close> when \<open>Number(tcin)\<close> is \<open>NaN\<close>.  On a string, \<open>tcin.toString()\<close> is \<open>tcin\<close>.
  A result is stored only when its value is truthy (\<open>if (stock)\<close>, \<open>if (product)\<close>).
\<close>

definition set_result ::
  "(string \<Rightarrow> string option) \<Rightarrow> (string \<rightharpoonup> json) \<Rightarrow> item_result \<Rightarrow> (string \<rightharpoonup> json)" where
  "set_result numberToString m r =
     (case if_truthy (item_value r) of
        None \<Rightarrow> m
      | Some v \<Rightarrow>
          (let m1 = m(item_tcin r \<mapsto> v);
               m2 = m1(item_tcin r \<mapsto> v)
           in case numberToString (item_tcin r) of
                None \<Rightarrow> m2
              | Some k \<Rightarrow> m2(k \<mapsto> v)))"

definition checkBulkStoreStock ::
  "(string \<Rightarrow> string option) \<Rightarrow> env \<Rightarrow> upstream \<Rightarrow> nat \<Rightarrow> string list \<Rightarrow> string
     \<Rightarrow> string option \<Rightarrow> request_options \<Rightarrow> api_state \<Rightarrow> api_error + (string \<rightharpoonup> json)" where
  "checkBulkStoreStock numberToString env up now tcins zipCode storeId options s =
     (case promise_all (map (stock_item env up now zipCode storeId options s) tcins) of
        Inl e \<Rightarrow> Inl e
      | Inr results \<Rightarrow> Inr (foldl (set_result numberToString) Map.empty results))"



text \<open>Modelled from the spec: the two cache instances are created empty at process start,
  each with its own default time to live; no request has been sent yet.\<close>

definition initial_state :: "nat \<Rightarrow> nat \<Rightarrow> api_state" where
  "initial_state productTTL stockTTL =
     \<lparr>productCache = \<lparr>entries = Map.empty, defaultTTL = productTTL\<rparr>,
      stockCache = \<lparr>entries = Map.empty, defaultTTL = stockTTL\<rparr>,
      requests = []\<rparr>"


section \<open>Request handlers (controllers/products)\<close>

text \<open>
  The class \<open>ValidationError\<close> is declared in \<open>../types\<close>; its constructor takes the
  message, the field and the details object.  What a handler's \<open>catch\<close> block receives is
  a \<open>ValidationError\<close> thrown by the handler itself, the \<open>ApiError\<close> thrown by the client
  (which is not an instance of \<open>ValidationError\<close>), or the \<open>TypeError\<close> that reading a
  property of \<open>null\<close> throws (kept as its message).
\<close>

record validation_error =
  ve_message :: string
  ve_field :: string
  ve_details :: object

datatype caught = ValidationError validation_error | ApiError api_error | TypeError string

text \<open>\<open>(error as Error).message\<close>\<close>

definition message_of :: "caught \<Rightarrow> string" where
  "message_of error =
     (case error of
        ValidationError v \<Rightarrow> ve_message v
      | ApiError e \<Rightarrow> err_message e
      | TypeError m \<Rightarrow> m)"

text \<open>
  Reading the property \<open>k\<close> of a value the client returned: \<open>null\<close> has no properties and
  the read throws; on any other value the read gives the property or \<open>undefined\<close>.
\<close>

definition read_property :: "json \<Rightarrow> string \<Rightarrow> caught + json option" where
  "read_property v k =
     (if v = JNull
      then Inl (TypeError (''Cannot read properties of null (reading '' @ [CHR 0x27] @ k
                             @ [CHR 0x27] @ '')''))
      else Inr (get_prop v k))"

text \<open>The error envelope \<open>{ error: { code, message, field?, details? } }\<close>.\<close>

record error_body =
  eb_code :: string
  eb_message :: string
  eb_field :: "string option"
  eb_details :: "object option"

record pagination_summary =
  current_page :: number
  total_pages :: int
  total_results :: int

text \<open>
  The \<open>data\<close> of a success envelope: a product; the explicit empty result
  (\<open>results\<close>, \<open>pagination\<close>, \<open>message\<close>); or the search results (\<open>results\<close>,
  \<open>pagination\<close>, \<open>facets\<close>, \<open>categories\<close>, \<open>related_queries\<close>).
\<close>

datatype reply_data =
    ProductData json
  | NoResultsData "json list" pagination_summary string
  | ResultsData json "json option" "json option" "json option" "json option"

text \<open>
  A response body, as the object handed to \<open>res.json\<close>: the error envelope, or the success
  envelope \<open>{ success: true, data, request_info, request_metadata, location_info }\<close>, an
  absent field being \<open>None\<close>.
\<close>

datatype reply_body =
    ErrorEnvelope error_body
  | SuccessEnvelope reply_data "json option" "json option" "json option"

text \<open>\<open>res.status(n).json(b)\<close>; \<open>res.json(b)\<close> alone answers with status 200.\<close>

record http_reply =
  http_status :: nat
  http_body :: reply_body

text \<open>The \<open>catch\<close> block of a handler; \<open>generic\<close> is the message used outside
  development mode.\<close>

definition catch_reply :: "env \<Rightarrow> string \<Rightarrow> caught \<Rightarrow> http_reply" where
  "catch_reply env generic error =
     (case error of
        ValidationError v \<Rightarrow>
          \<lparr>http_status = 400,
           http_body = ErrorEnvelope
             \<lparr>eb_code = ''VALIDATION_ERROR'', eb_message = ve_message v,
              eb_field = Some (ve_field v), eb_details = Some (ve_details v)\<rparr>\<rparr>
      | _ \<Rightarrow>
          \<lparr>http_status = 500,
           http_body = ErrorEnvelope
             \<lparr>eb_code = ''INTERNAL_ERROR'',
              eb_message = (if NODE_ENV env = ''development'' then message_of error else generic),
              eb_field = None, eb_details = None\<rparr>\<rparr>)"

text \<open>
  The answer of a product handler to what the client returned: the read of
  \<open>productData.product\<close>, the test \<open>!productData.product\<close>, and the two answers.
\<close>

definition product_reply :: "string \<Rightarrow> json \<Rightarrow> caught + http_reply" where
  "product_reply not_found productData =
     (case read_property productData ''product'' of
        Inl error \<Rightarrow> Inl error
      | Inr found \<Rightarrow>
          (case if_truthy found of
             None \<Rightarrow>
               Inr \<lparr>http_status = 404,
                    http_body = ErrorEnvelope
                      \<lparr>eb_code = ''PRODUCT_NOT_FOUND'', eb_message = not_found,
                       eb_field = None, eb_details = None\<rparr>\<rparr>
           | Some p \<Rightarrow>
               Inr \<lparr>http_status = 200,
                    http_body = SuccessEnvelope (ProductData p)
                      (get_prop productData ''request_info'')
                      (get_prop productData ''request_metadata'')
                      (get_prop productData ''location_info'')\<rparr>))"

text \<open>\<open>GET /api/products/:tcin\<close>: the handler \<open>getProductByTcin\<close> of the controller (the
  client has a function of the same name).  The argument is \<open>req.params.tcin\<close>; an
  undefined value is left out of the details, as JSON does.\<close>

definition getProductByTcin_try ::
  "env \<Rightarrow> upstream \<Rightarrow> nat \<Rightarrow> string option \<Rightarrow> api_state
     \<Rightarrow> (caught + http_reply) \<times> api_state" where
  "getProductByTcin_try env up now tcinParam s =
     (case tcinParam of
        None \<Rightarrow>
          (Inl (ValidationError
                 \<lparr>ve_message = ''Invalid TCIN format. Must be 8-10 digits.'',
                  ve_field = ''tcin'', ve_details = []\<rparr>), s)
      | Some tcin \<Rightarrow>
          (if tcin = [] \<or> \<not> isValidTcin tcin then
             (Inl (ValidationError
                    \<lparr>ve_message = ''Invalid TCIN format. Must be 8-10 digits.'',
                     ve_field = ''tcin'', ve_details = [(''tcin'', JStr tcin)]\<rparr>), s)
           else
             (case getFullProductByTcin env up now tcin no_options s of
                (Inl error, s1) \<Rightarrow> (Inl (ApiError error), s1)
              | (Inr productData, s1) \<Rightarrow>
                  (product_reply (''Product with TCIN '' @ tcin @ '' not found'') productData,
                   s1))))"

definition getProductByTcin_handler ::
  "env \<Rightarrow> upstream \<Rightarrow> nat \<Rightarrow> string option \<Rightarrow> api_state \<Rightarrow> http_reply \<times> api_state" where
  "getProductByTcin_handler env up now tcinParam s =
     (case getProductByTcin_try env up now tcinParam s of
        (Inr reply, s1) \<Rightarrow> (reply, s1)
      | (Inl error, s1) \<Rightarrow>
          (catch_reply env ''Failed to fetch product information'' error, s1))"

text \<open>\<open>/^\d{8,14}$/.test(gtin)\<close>\<close>

definition isValidGtin :: "string \<Rightarrow> bool" where
  "isValidGtin gtin = (8 \<le> length gtin \<and> length gtin \<le> 14 \<and> list_all is_digit gtin)"

text \<open>\<open>GET /api/products/upc/:gtin\<close>; the argument is \<open>req.params.gtin\<close>.\<close>

definition getProductByUpc_try ::
  "env \<Rightarrow> upstream \<Rightarrow> nat \<Rightarrow> string option \<Rightarrow> api_state
     \<Rightarrow> (caught + http_reply) \<times> api_state" where
  "getProductByUpc_try env up now gtinParam s =
     (case gtinParam of
        None \<Rightarrow>
          (Inl (ValidationError
                 \<lparr>ve_message = ''Invalid UPC/GTIN format. Must be 8-14 digits.'',
                  ve_field = ''gtin'', ve_details = []\<rparr>), s)
      | Some gtin \<Rightarrow>
          (if gtin = [] \<or> \<not> isValidGtin gtin then
             (Inl (ValidationError
                    \<lparr>ve_message = ''Invalid UPC/GTIN format. Must be 8-14 digits.'',
                     ve_field = ''gtin'', ve_details = [(''gtin'', JStr gtin)]\<rparr>), s)
           else
             (case getProductByGtin env up now gtin no_options s of
                (Inl error, s1) \<Rightarrow> (Inl (ApiError error), s1)
              | (Inr productData, s1) \<Rightarrow>
                  (product_reply (''Product with UPC/GTIN '' @ gtin @ '' not found'') productData,
                   s1))))"

definition getProductByUpc ::
  "env \<Rightarrow> upstream \<Rightarrow> nat \<Rightarrow> string option \<Rightarrow> api_state \<Rightarrow> http_reply \<times> api_state" where
  "getProductByUpc env up now gtinParam s =
     (case getProductByUpc_try env up now gtinParam s of
        (Inr reply, s1) \<Rightarrow> (reply, s1)
      | (Inl error, s1) \<Rightarrow>
          (catch_reply env ''Failed to fetch product information'' error, s1))"

subsection \<open>Search handler\<close>

text \<open>White space of \<open>trim\<close> and \<open>parseInt\<close> among the code units below 256: tab, line
  feed, vertical tab, form feed, carriage return, space and no-break space.\<close>

definition is_space :: "char \<Rightarrow> bool" where
  "is_space c = (c \<in> set [CHR 0x09, CHR 0x0A, CHR 0x0B, CHR 0x0C, CHR 0x0D, CHR 0x20, CHR 0xA0])"

definition trim :: "string \<Rightarrow> string" where
  "trim s = rev (dropWhile is_space (rev (dropWhile is_space s)))"

definition digit_value :: "char \<Rightarrow> nat" where
  "digit_value c = length (takeWhile (\<lambda>d. d \<noteq> c) ''0123456789'')"

text \<open>The number of binary digits of a natural number.\<close>

fun bit_length :: "nat \<Rightarrow> nat" where
  "bit_length n = (if n = 0 then 0 else Suc (bit_length (n div 2)))"

declare bit_length.simps [simp del]

text \<open>
  The Number value of a natural number: itself below \<open>2^53\<close>; above, the nearest number
  with 53 significant binary digits, a tie going to the even one; \<open>None\<close> is \<open>Infinity\<close>,
  reached when the rounded value is \<open>2^1024\<close> or more.
\<close>

definition to_double :: "nat \<Rightarrow> nat option" where
  "to_double n =
     (if n < 2 ^ 53 then Some n
      else
        (let e = bit_length n - 53;
             q = n div 2 ^ e;
             r = n mod 2 ^ e;
             q1 = (if 2 ^ e < 2 * r \<or> (2 * r = 2 ^ e \<and> odd q) then q + 1 else q)
         in if 2 ^ 1024 \<le> q1 * 2 ^ e then None else Some (q1 * 2 ^ e)))"

text \<open>
  \<open>parseInt(s, 10)\<close>: leading white space is skipped, a sign is read, then the longest
  run of digits; without a digit the result is \<open>NaN\<close>, otherwise the Number value of the
  digits with the sign (Node reads the whole run and rounds it once).
\<close>

definition parseInt :: "string \<Rightarrow> number" where
  "parseInt s =
     (let s1 = dropWhile is_space s;
          neg = (take 1 s1 = ''-'');
          s2 = (if take 1 s1 = ''-'' \<or> take 1 s1 = ''+'' then drop 1 s1 else s1);
          ds = takeWhile is_digit s2
      in if ds = [] then NaN
         else
           (case to_double (foldl (\<lambda>a c. 10 * a + digit_value c) 0 ds) of
              None \<Rightarrow> (if neg then NegInf else PosInf)
            | Some v \<Rightarrow> Fin ((if neg then - 1 else 1) * int v)))"

text \<open>\<open>pageParam ? parseInt(pageParam as string, 10) : 1\<close>\<close>

definition requested_page :: "string option \<Rightarrow> number" where
  "requested_page pageParam =
     (case pageParam of
        None \<Rightarrow> Fin 1
      | Some p \<Rightarrow> (if p = [] then Fin 1 else parseInt p))"

text \<open>\<open>Number.isNaN(page) || page < 1\<close>\<close>

definition invalid_page :: "number \<Rightarrow> bool" where
  "invalid_page pg =
     (case pg of
        NaN \<Rightarrow> True
      | Fin n \<Rightarrow> n < 1
      | PosInf \<Rightarrow> False
      | NegInf \<Rightarrow> True)"

text \<open>A value of \<open>req.query\<close>: a string, or an array or nested object.\<close>

datatype query_value = QString string | QOther json

record search_query =
  q :: "query_value option"
  page_param :: "string option"
  sort_param :: "string option"

text \<open>The two validation errors; an undefined value is left out of the details, as JSON
  does.\<close>

definition search_term_error :: "json option \<Rightarrow> caught" where
  "search_term_error v =
     ValidationError
       \<lparr>ve_message = ''Search term is required and must not be empty'',
        ve_field = ''q'',
        ve_details = (case v of None \<Rightarrow> [] | Some j \<Rightarrow> [(''searchTerm'', j)])\<rparr>"

definition page_error :: "string option \<Rightarrow> caught" where
  "page_error pageParam =
     ValidationError
       \<lparr>ve_message = ''Page must be a positive integer'',
        ve_field = ''page'',
        ve_details = (case pageParam of None \<Rightarrow> [] | Some p \<Rightarrow> [(''page'', JStr p)])\<rparr>"

text \<open>\<open>v.length === 0\<close> for a truthy value \<open>v\<close>: an array or a string has its length, an
  object the property of that name if it has one, a number or boolean none.\<close>

fun length_is_zero :: "json \<Rightarrow> bool" where
  "length_is_zero (JArr xs) = (length xs = 0)"
| "length_is_zero (JStr s) = (length s = 0)"
| "length_is_zero (JObj kvs) = (map_of kvs ''length'' = Some (JNum 0))"
| "length_is_zero _ = False"

definition no_results_reply :: "number \<Rightarrow> http_reply" where
  "no_results_reply pg =
     \<lparr>http_status = 200,
      http_body = SuccessEnvelope
        (NoResultsData []
           \<lparr>current_page = pg, total_pages = 0, total_results = 0\<rparr>
           ''No products found matching your search'')
        None None None\<rparr>"

text \<open>
  The answer of the search handler to what the client returned: the read of
  \<open>searchResults.search_results\<close>, the test
  \<open>!searchResults.search_results || searchResults.search_results.length === 0\<close>, and the
  two answers.
\<close>

definition search_reply :: "number \<Rightarrow> json \<Rightarrow> caught + http_reply" where
  "search_reply pg searchResults =
     (case read_property searchResults ''search_results'' of
        Inl error \<Rightarrow> Inl error
      | Inr found \<Rightarrow>
          (case if_truthy found of
             None \<Rightarrow> Inr (no_results_reply pg)
           | Some rs \<Rightarrow>
               (if length_is_zero rs then Inr (no_results_reply pg)
                else
                  Inr \<lparr>http_status = 200,
                       http_body = SuccessEnvelope
                         (ResultsData rs (get_prop searchResults ''pagination'')
                            (get_prop searchResults ''facets'')
                            (get_prop searchResults ''categories'')
                            (get_prop searchResults ''related_queries''))
                         (get_prop searchResults ''request_info'')
                         (get_prop searchResults ''request_metadata'') None\<rparr>)))"

text \<open>\<open>GET /api/products/search?q=&page=&sort=\<close>; the argument is \<open>req.query\<close>.\<close>

definition searchProductsHandler_try ::
  "env \<Rightarrow> upstream \<Rightarrow> nat \<Rightarrow> search_query \<Rightarrow> api_state
     \<Rightarrow> (caught + http_reply) \<times> api_state" where
  "searchProductsHandler_try env up now query s =
     (case q query of
        None \<Rightarrow> (Inl (search_term_error None), s)
      | Some (QOther v) \<Rightarrow> (Inl (search_term_error (Some v)), s)
      | Some (QString searchTerm) \<Rightarrow>
          (if searchTerm = [] \<or> length (trim searchTerm) = 0 then
             (Inl (search_term_error (Some (JStr searchTerm))), s)
           else if invalid_page (requested_page (page_param query)) then
             (Inl (page_error (page_param query)), s)
           else
             (case searchProducts env up now (trim searchTerm)
                     \<lparr>skipCache = False, timeout = None,
                      page = Some (requested_page (page_param query)),
                      sortBy = sort_param query\<rparr> s of
                (Inl error, s1) \<Rightarrow> (Inl (ApiError error), s1)
              | (Inr searchResults, s1) \<Rightarrow>
                  (search_reply (requested_page (page_param query)) searchResults, s1))))"

definition searchProductsHandler ::
  "env \<Rightarrow> upstream \<Rightarrow> nat \<Rightarrow> search_query \<Rightarrow> api_state \<Rightarrow> http_reply \<times> api_state" where
  "searchProductsHandler env up now query s =
     (case searchProductsHandler_try env up now query s of
        (Inr reply, s1) \<Rightarrow> (reply, s1)
      | (Inl error, s1) \<Rightarrow> (catch_reply env ''Failed to search products'' error, s1))"

section \<open>Concrete inputs of the examples\<close>

definition example_env :: env where
  "example_env =
     \<lparr>API_KEY = ''key'', NODE_ENV = ''production'',
      generateProductCacheKey = (\<lambda>tcin. ''product_'' @ tcin),
      generateProductStockCacheKey = (\<lambda>zipCode tcin. ''stock_'' @ zipCode @ ''_'' @ tcin)\<rparr>"

text \<open>A body with a product.\<close>

definition example_body :: json where
  "example_body =
     JObj [(''product'', JObj [(''tcin'', JStr ''78025470'')]),
           (''request_info'', JObj [(''success'', JBool True)])]"

text \<open>A body without a product and without search results.\<close>

definition empty_body :: json where
  "empty_body = JObj [(''request_info'', JObj [(''success'', JBool True)])]"

text \<open>An upstream answer with HTTP status 404 and an empty body.\<close>

definition not_found_404 :: thrown where
  "not_found_404 =
     AxiosError \<lparr>ae_message = ''Request failed with status code 404'',
                 ae_response = Some \<lparr>resp_status = 404, resp_data = JStr [],
                                      resp_headers = []\<rparr>\<rparr>"



section \<open>Properties of the error classifier\<close>

text \<open>
  Claim C2, as stated, fails: for an upstream response with status 500 and no error code
  in its body the code of the returned error is the number 500, not the string
  \<open>NETWORK_ERROR\<close>.
\<close>

theorem handleApiError_status_500_not_NETWORK_ERROR:
  "err_code (handleApiError
      (AxiosError \<lparr>ae_message = ''Request failed with status code 500'',
                   ae_response = Some \<lparr>resp_status = 500, resp_data = JObj [],
                                        resp_headers = []\<rparr>\<rparr>)
      (Some ''TCIN 78025470'')) = CodeNum 500
   \<and> err_code (handleApiError
      (AxiosError \<lparr>ae_message = ''Request failed with status code 500'',
                   ae_response = Some \<lparr>resp_status = 500, resp_data = JObj [],
                                        resp_headers = []\<rparr>\<rparr>)
      (Some ''TCIN 78025470'')) \<noteq> CodeStr ''NETWORK_ERROR''"
  by (simp add: handleApiError_def errorCode_of_def)

text \<open>
  Claim C2, amended: for every axios error whose status is not 404, 429, 401 or 403 and
  whose body carries no recognised error code, \<open>handleApiError\<close> returns an error whose
  message is the original message, whose code is the numeric HTTP status when the
  response has a non-zero one and the string \<open>NETWORK_ERROR\<close> only when there is no
  status, and whose details hold the context and the original message.
\<close>

theorem handleApiError_fallthrough:
  assumes "map_option resp_status (ae_response e) \<notin> {Some 404, Some 429, Some 401, Some 403}"
    and "(case ae_response e of None \<Rightarrow> None | Some r \<Rightarrow> errorCode_of (resp_data r))
           \<notin> {Some (JStr ''PRODUCT_NOT_FOUND''), Some (JStr ''RATE_LIMIT_EXCEEDED'')}"
  shows "handleApiError (AxiosError e) context =
           \<lparr>err_message = ae_message e,
            err_code = (case map_option resp_status (ae_response e) of
                          None \<Rightarrow> CodeStr ''NETWORK_ERROR''
                        | Some n \<Rightarrow> (if n = 0 then CodeStr ''NETWORK_ERROR'' else CodeNum n)),
            err_details = \<lparr>d_context = context, d_status = None, d_retryAfter = None,
                           d_originalError = Some (ae_message e)\<rparr>\<rparr>"
  using assms by (simp add: handleApiError_def Let_def)

theorem handleApiError_fallthrough_witness:
  "handleApiError
      (AxiosError \<lparr>ae_message = ''Request failed with status code 503'',
                   ae_response = Some \<lparr>resp_status = 503, resp_data = JStr ''Service Unavailable'',
                                        resp_headers = []\<rparr>\<rparr>)
      (Some ''GTIN 012345678905'') =
     \<lparr>err_message = ''Request failed with status code 503'',
      err_code = CodeNum 503,
      err_details = \<lparr>d_context = Some ''GTIN 012345678905'', d_status = None,
                     d_retryAfter = None,
                     d_originalError = Some ''Request failed with status code 503''\<rparr>\<rparr>
   \<and> handleApiError
      (AxiosError \<lparr>ae_message = ''timeout of 10000ms exceeded'', ae_response = None\<rparr>) None =
     \<lparr>err_message = ''timeout of 10000ms exceeded'',
      err_code = CodeStr ''NETWORK_ERROR'',
      err_details = \<lparr>d_context = None, d_status = None, d_retryAfter = None,
                     d_originalError = Some ''timeout of 10000ms exceeded''\<rparr>\<rparr>"
  using handleApiError_fallthrough
          [of "\<lparr>ae_message = ''Request failed with status code 503'',
                ae_response = Some \<lparr>resp_status = 503, resp_data = JStr ''Service Unavailable'',
                                     resp_headers = []\<rparr>\<rparr>"
              "Some ''GTIN 012345678905''"]
        handleApiError_fallthrough
          [of "\<lparr>ae_message = ''timeout of 10000ms exceeded'', ae_response = None\<rparr>" None]
  by (simp add: errorCode_of_def)

section \<open>Properties of the helper functions\<close>

lemma match_here_A_prefix:
  "match_here (''/A-'' @ t) =
     (if 8 \<le> length t \<and> list_all is_digit (take 8 t) then Some (take 8 t) else None)"
  by (auto simp: match_here_def)

lemma extractTcinFromUrl_generateProductUrl:
  "8 \<le> length t \<Longrightarrow> list_all is_digit (take 8 t) \<Longrightarrow>
   extractTcinFromUrl (generateProductUrl t) = Some (take 8 t)"
  by (simp add: generateProductUrl_def match_here_def)

lemma list_all_take: "list_all P xs \<Longrightarrow> list_all P (take n xs)"
  by (induction xs arbitrary: n) (auto simp: take_Cons split: nat.splits)

lemma extract_generate_valid:
  "isValidTcin t \<Longrightarrow> extractTcinFromUrl (generateProductUrl t) = Some (take 8 t)"
  by (simp add: extractTcinFromUrl_generateProductUrl isValidTcin_def list_all_take)

lemma extract_generate_eight_digits:
  "length t = 8 \<Longrightarrow> list_all is_digit t \<Longrightarrow> extractTcinFromUrl (generateProductUrl t) = Some t"
  by (simp add: extractTcinFromUrl_generateProductUrl)

text \<open>
  Claim C3 at the input \<open>123456789\<close>: the identifier is accepted by \<open>isValidTcin\<close>, and
  extracting it from its own product URL returns only its first eight digits.  The two
  examples of the claim, on the eight-digit identifier \<open>78025470\<close>, do hold.
\<close>

theorem extractTcinFromUrl_truncates_nine_digits:
  "isValidTcin ''123456789''
   \<and> generateProductUrl ''123456789'' = ''https://www.target.com/p/-/A-123456789''
   \<and> extractTcinFromUrl (generateProductUrl ''123456789'') = Some ''12345678''
   \<and> extractTcinFromUrl (generateProductUrl ''123456789'') \<noteq> Some ''123456789''
   \<and> extractTcinFromUrl ''https://www.target.com/p/product-name/-/A-78025470'' = Some ''78025470''
   \<and> generateProductUrl ''78025470'' = ''https://www.target.com/p/-/A-78025470''"
  by (simp add: isValidTcin_def is_digit_def generateProductUrl_def match_here_def)

section \<open>Properties of the API client\<close>

subsection \<open>The store-id argument\<close>

lemma stock_item_storeId:
  "stock_item env up now zipCode storeId1 options s = stock_item env up now zipCode storeId2 options s"
  by (rule ext) (simp add: stock_item_def checkStoreStock_def)

lemma checkStoreStock_requests:
  "requests (snd (checkStoreStock env up now tcin zipCode storeId options s)) = requests s
   \<or> requests (snd (checkStoreStock env up now tcin zipCode storeId options s))
        = requests s @
          [\<lparr>req_params = [(''api_key'', API_KEY env), (''type'', ''store_stock''),
                          (''tcin'', tcin), (''store_stock_zipcode'', zipCode)],
            req_timeout = timeout_of options\<rparr>]"
  by (simp add: checkStoreStock_def axios_get_def split: option.splits sum.splits)

lemma checkStoreStock_stockCache:
  "stockCache (snd (checkStoreStock env up now tcin zipCode storeId options s)) = stockCache s
   \<or> (\<exists>data. stockCache (snd (checkStoreStock env up now tcin zipCode storeId options s))
        = setCachedValue (stockCache s) now (generateProductStockCacheKey env zipCode tcin) data)"
  by (auto simp: checkStoreStock_def axios_get_def split: option.splits sum.splits)

text \<open>
  Claim C5: for every TCIN, zip code and options, any two values of the store-id argument
  (absent included) give the same result and the same state after the call, in
  \<open>checkStoreStock\<close> and in \<open>checkBulkStoreStock\<close>.  The call sends no request or exactly
  the one with the parameters \<open>api_key\<close>, \<open>type\<close>, \<open>tcin\<close> and \<open>store_stock_zipcode\<close>, and it
  leaves the stock cache alone or writes it under the key made from the zip code and the
  TCIN only: the store id is in neither.
\<close>

theorem checkStoreStock_storeId_not_used:
  "checkStoreStock env up now tcin zipCode storeId1 options s
     = checkStoreStock env up now tcin zipCode storeId2 options s
   \<and> checkBulkStoreStock numberToString env up now tcins zipCode storeId1 options s
     = checkBulkStoreStock numberToString env up now tcins zipCode storeId2 options s
   \<and> (requests (snd (checkStoreStock env up now tcin zipCode storeId1 options s)) = requests s
      \<or> requests (snd (checkStoreStock env up now tcin zipCode storeId1 options s))
          = requests s @
            [\<lparr>req_params = [(''api_key'', API_KEY env), (''type'', ''store_stock''),
                            (''tcin'', tcin), (''store_stock_zipcode'', zipCode)],
              req_timeout = timeout_of options\<rparr>])
   \<and> (stockCache (snd (checkStoreStock env up now tcin zipCode storeId1 options s)) = stockCache s
      \<or> (\<exists>data. stockCache (snd (checkStoreStock env up now tcin zipCode storeId1 options s))
          = setCachedValue (stockCache s) now (generateProductStockCacheKey env zipCode tcin) data))"
proof -
  have "checkStoreStock env up now tcin zipCode storeId1 options s
          = checkStoreStock env up now tcin zipCode storeId2 options s"
    by (simp add: checkStoreStock_def)
  moreover have "checkBulkStoreStock numberToString env up now tcins zipCode storeId1 options s
          = checkBulkStoreStock numberToString env up now tcins zipCode storeId2 options s"
    by (simp add: checkBulkStoreStock_def
          stock_item_storeId [of env up now zipCode storeId1 options s storeId2])
  ultimately show ?thesis
    using checkStoreStock_requests [of env up now tcin zipCode storeId1 options s]
      checkStoreStock_stockCache [of env up now tcin zipCode storeId1 options s]
    by blast
qed

subsection \<open>Repeated product look-ups\<close>









subsection \<open>The search cache key\<close>

lemma digits_of_small: "n < 10 \<Longrightarrow> digits_of n = [digit_char n]"
  by (simp add: digits_of.simps)

text \<open>
  Claim C8: the queries \<open>('a_page1', 2, absent)\<close> and \<open>('a', 1, 'page2_default')\<close> are
  distinct and are sent upstream with different parameters, yet \<open>searchProducts\<close> gives
  them the same cache key; so after the first has been answered with an object and
  cached, the second is answered from the cache with the first one's payload, without a
  request.
\<close>

theorem search_cacheKey_not_injective:
  "search_cacheKey ''a_page1''
       \<lparr>skipCache = False, timeout = None, page = Some (Fin 2), sortBy = None\<rparr>
     = search_cacheKey ''a''
         \<lparr>skipCache = False, timeout = None, page = Some (Fin 1),
          sortBy = Some ''page2_default''\<rparr>
   \<and> (''a_page1'', Some (Fin 2), None :: string option)
       \<noteq> (''a'', Some (Fin 1), Some ''page2_default'')
   \<and> search_params env ''a_page1''
        \<lparr>skipCache = False, timeout = None, page = Some (Fin 2), sortBy = None\<rparr>
      \<noteq> search_params env ''a''
        \<lparr>skipCache = False, timeout = None, page = Some (Fin 1),
         sortBy = Some ''page2_default''\<rparr>
   \<and> searchProducts env up2 now ''a''
        \<lparr>skipCache = False, timeout = None, page = Some (Fin 1),
         sortBy = Some ''page2_default''\<rparr>
        (snd (searchProducts env (\<lambda>req. Inr (JObj data)) now ''a_page1''
                \<lparr>skipCache = False, timeout = None, page = Some (Fin 2), sortBy = None\<rparr>
                (initial_state productTTL stockTTL)))
      = (Inr (JObj data),
         snd (searchProducts env (\<lambda>req. Inr (JObj data)) now ''a_page1''
                \<lparr>skipCache = False, timeout = None, page = Some (Fin 2), sortBy = None\<rparr>
                (initial_state productTTL stockTTL)))"
  by (simp add: search_cacheKey_def search_params_def page_of_def sortBy_of_def toString_def
        number_toString_def digits_of_small digit_char_def searchProducts_def getCachedValue_def
        setCachedValue_def initial_state_def axios_get_def if_truthy_def)

section \<open>Properties of the request handlers\<close>

subsection \<open>Product handlers\<close>

lemma isValidTcin_nonempty: "isValidTcin t \<Longrightarrow> t \<noteq> []"
  by (auto simp: isValidTcin_def)

lemma isValidGtin_nonempty: "isValidGtin t \<Longrightarrow> t \<noteq> []"
  by (auto simp: isValidGtin_def)

lemma catch_reply_status: "http_status (catch_reply env generic error) = 400
   \<or> http_status (catch_reply env generic error) = 500"
  by (simp add: catch_reply_def split: caught.splits)

lemma catch_reply_code: "http_body (catch_reply env generic error) = ErrorEnvelope b \<Longrightarrow>
   eb_code b = ''VALIDATION_ERROR'' \<or> eb_code b = ''INTERNAL_ERROR''"
  by (auto simp: catch_reply_def split: caught.splits)

lemma catch_reply_not_404: "http_status (catch_reply env generic error) \<noteq> 404"
  using catch_reply_status [of env generic error] by auto

lemma catch_reply_not_PNF:
  "http_body (catch_reply env generic error) = ErrorEnvelope b \<Longrightarrow> eb_code b \<noteq> ''PRODUCT_NOT_FOUND''"
  using catch_reply_code [of env generic error b] by auto

text \<open>What a product handler answers to a body the client returned, \<open>catch\<close> block included.\<close>

lemma product_reply_status:
  "http_status (case product_reply msg d of
                  Inl error \<Rightarrow> catch_reply env generic error
                | Inr reply \<Rightarrow> reply) = 404
     \<longleftrightarrow> d \<noteq> JNull \<and> if_truthy (get_prop d ''product'') = None"
  by (auto simp: product_reply_def read_property_def catch_reply_def split: option.splits)

lemma product_reply_code:
  "(\<exists>b. http_body (case product_reply msg d of
                     Inl error \<Rightarrow> catch_reply env generic error
                   | Inr reply \<Rightarrow> reply) = ErrorEnvelope b \<and> eb_code b = ''PRODUCT_NOT_FOUND'')
     \<longleftrightarrow> d \<noteq> JNull \<and> if_truthy (get_prop d ''product'') = None"
  by (auto simp: product_reply_def read_property_def catch_reply_def split: option.splits)

lemma tcin_handler_cases:
  "fst (getProductByTcin_handler env up now tcinParam s) =
     (case tcinParam of
        None \<Rightarrow> catch_reply env ''Failed to fetch product information''
                   (ValidationError
                     \<lparr>ve_message = ''Invalid TCIN format. Must be 8-10 digits.'',
                      ve_field = ''tcin'', ve_details = []\<rparr>)
      | Some tcin \<Rightarrow>
          (if \<not> isValidTcin tcin then
             catch_reply env ''Failed to fetch product information''
               (ValidationError
                 \<lparr>ve_message = ''Invalid TCIN format. Must be 8-10 digits.'',
                  ve_field = ''tcin'', ve_details = [(''tcin'', JStr tcin)]\<rparr>)
           else
             (case fst (getFullProductByTcin env up now tcin no_options s) of
                Inl error \<Rightarrow> catch_reply env ''Failed to fetch product information'' (ApiError error)
              | Inr productData \<Rightarrow>
                  (case product_reply (''Product with TCIN '' @ tcin @ '' not found'') productData of
                     Inl error \<Rightarrow> catch_reply env ''Failed to fetch product information'' error
                   | Inr reply \<Rightarrow> reply))))"
  by (auto simp: getProductByTcin_handler_def getProductByTcin_try_def isValidTcin_nonempty
        split: option.splits sum.splits prod.splits)

lemma upc_handler_cases:
  "fst (getProductByUpc env up now gtinParam s) =
     (case gtinParam of
        None \<Rightarrow> catch_reply env ''Failed to fetch product information''
                   (ValidationError
                     \<lparr>ve_message = ''Invalid UPC/GTIN format. Must be 8-14 digits.'',
                      ve_field = ''gtin'', ve_details = []\<rparr>)
      | Some gtin \<Rightarrow>
          (if \<not> isValidGtin gtin then
             catch_reply env ''Failed to fetch product information''
               (ValidationError
                 \<lparr>ve_message = ''Invalid UPC/GTIN format. Must be 8-14 digits.'',
                  ve_field = ''gtin'', ve_details = [(''gtin'', JStr gtin)]\<rparr>)
           else
             (case fst (getProductByGtin env up now gtin no_options s) of
                Inl error \<Rightarrow> catch_reply env ''Failed to fetch product information'' (ApiError error)
              | Inr productData \<Rightarrow>
                  (case product_reply (''Product with UPC/GTIN '' @ gtin @ '' not found'') productData of
                     Inl error \<Rightarrow> catch_reply env ''Failed to fetch product information'' error
                   | Inr reply \<Rightarrow> reply))))"
  by (auto simp: getProductByUpc_def getProductByUpc_try_def isValidGtin_nonempty
        split: option.splits sum.splits prod.splits)

text \<open>
  Claim C9, amended: each product handler answers with status 404, and likewise with the
  error code \<open>PRODUCT_NOT_FOUND\<close>, exactly when the identifier passes validation, the
  client call returns a body other than \<open>null\<close>, and the \<open>product\<close> property of that body
  is absent or falsy.  The \<open>catch\<close> block never answers 404, whatever error it receives.
\<close>

theorem product_handlers_404_iff_missing_product:
  "(http_status (fst (getProductByTcin_handler env up now tcinParam s)) = 404
      \<longleftrightarrow> (\<exists>tcin productData. tcinParam = Some tcin \<and> isValidTcin tcin
             \<and> fst (getFullProductByTcin env up now tcin no_options s) = Inr productData
             \<and> productData \<noteq> JNull
             \<and> if_truthy (get_prop productData ''product'') = None))
   \<and> ((\<exists>b. http_body (fst (getProductByTcin_handler env up now tcinParam s)) = ErrorEnvelope b
            \<and> eb_code b = ''PRODUCT_NOT_FOUND'')
      \<longleftrightarrow> (\<exists>tcin productData. tcinParam = Some tcin \<and> isValidTcin tcin
             \<and> fst (getFullProductByTcin env up now tcin no_options s) = Inr productData
             \<and> productData \<noteq> JNull
             \<and> if_truthy (get_prop productData ''product'') = None))
   \<and> (http_status (fst (getProductByUpc env up now gtinParam s)) = 404
      \<longleftrightarrow> (\<exists>gtin productData. gtinParam = Some gtin \<and> isValidGtin gtin
             \<and> fst (getProductByGtin env up now gtin no_options s) = Inr productData
             \<and> productData \<noteq> JNull
             \<and> if_truthy (get_prop productData ''product'') = None))
   \<and> ((\<exists>b. http_body (fst (getProductByUpc env up now gtinParam s)) = ErrorEnvelope b
            \<and> eb_code b = ''PRODUCT_NOT_FOUND'')
      \<longleftrightarrow> (\<exists>gtin productData. gtinParam = Some gtin \<and> isValidGtin gtin
             \<and> fst (getProductByGtin env up now gtin no_options s) = Inr productData
             \<and> productData \<noteq> JNull
             \<and> if_truthy (get_prop productData ''product'') = None))
   \<and> http_status (catch_reply env generic error) \<noteq> 404"
proof -
  have a: "http_status (fst (getProductByTcin_handler env up now tcinParam s)) = 404
      \<longleftrightarrow> (\<exists>tcin productData. tcinParam = Some tcin \<and> isValidTcin tcin
             \<and> fst (getFullProductByTcin env up now tcin no_options s) = Inr productData
             \<and> productData \<noteq> JNull
             \<and> if_truthy (get_prop productData ''product'') = None)"
    by (auto simp: tcin_handler_cases catch_reply_not_404 product_reply_status
          split: option.splits sum.splits if_splits)
  have b: "(\<exists>b. http_body (fst (getProductByTcin_handler env up now tcinParam s)) = ErrorEnvelope b
            \<and> eb_code b = ''PRODUCT_NOT_FOUND'')
      \<longleftrightarrow> (\<exists>tcin productData. tcinParam = Some tcin \<and> isValidTcin tcin
             \<and> fst (getFullProductByTcin env up now tcin no_options s) = Inr productData
             \<and> productData \<noteq> JNull
             \<and> if_truthy (get_prop productData ''product'') = None)"
    by (auto simp: tcin_handler_cases product_reply_code
          split: option.splits sum.splits if_splits dest: catch_reply_not_PNF)
  have c: "http_status (fst (getProductByUpc env up now gtinParam s)) = 404
      \<longleftrightarrow> (\<exists>gtin productData. gtinParam = Some gtin \<and> isValidGtin gtin
             \<and> fst (getProductByGtin env up now gtin no_options s) = Inr productData
             \<and> productData \<noteq> JNull
             \<and> if_truthy (get_prop productData ''product'') = None)"
    by (auto simp: upc_handler_cases catch_reply_not_404 product_reply_status
          split: option.splits sum.splits if_splits)
  have d: "(\<exists>b. http_body (fst (getProductByUpc env up now gtinParam s)) = ErrorEnvelope b
            \<and> eb_code b = ''PRODUCT_NOT_FOUND'')
      \<longleftrightarrow> (\<exists>gtin productData. gtinParam = Some gtin \<and> isValidGtin gtin
             \<and> fst (getProductByGtin env up now gtin no_options s) = Inr productData
             \<and> productData \<noteq> JNull
             \<and> if_truthy (get_prop productData ''product'') = None)"
    by (auto simp: upc_handler_cases product_reply_code
          split: option.splits sum.splits if_splits dest: catch_reply_not_PNF)
  from a b c d catch_reply_not_404 show ?thesis by blast
qed

theorem product_handlers_404_iff_missing_product_witness:
  "http_status (fst (getProductByTcin_handler example_env (\<lambda>req. Inr empty_body) 0
                      (Some ''78025470'') (initial_state 3600 60))) = 404
   \<and> http_status (fst (getProductByTcin_handler example_env (\<lambda>req. Inl not_found_404) 0
                      (Some ''78025470'') (initial_state 3600 60))) \<noteq> 404"
proof -
  have ok: "fst (getFullProductByTcin example_env (\<lambda>req. Inr empty_body) 0 ''78025470''
                   no_options (initial_state 3600 60)) = Inr empty_body"
    by (simp add: getFullProductByTcin_def getCachedValue_def initial_state_def no_options_def
          axios_get_def if_truthy_def)
  have valid: "isValidTcin ''78025470''"
    by (simp add: isValidTcin_def is_digit_def)
  have missing: "empty_body \<noteq> JNull" "if_truthy (get_prop empty_body ''product'') = None"
    by (simp_all add: empty_body_def if_truthy_def)
  have failed: "\<And>productData. fst (getFullProductByTcin example_env (\<lambda>req. Inl not_found_404) 0 ''78025470''
                   no_options (initial_state 3600 60)) \<noteq> Inr productData"
    by (simp add: getFullProductByTcin_def getCachedValue_def initial_state_def no_options_def
          axios_get_def if_truthy_def)
  note first = product_handlers_404_iff_missing_product
            [of example_env "\<lambda>req. Inr empty_body" 0 "Some ''78025470''" "initial_state 3600 60",
             THEN conjunct1]
  note second = product_handlers_404_iff_missing_product
            [of example_env "\<lambda>req. Inl not_found_404" 0 "Some ''78025470''" "initial_state 3600 60",
             THEN conjunct1]
  have "\<exists>tcin productData. Some ''78025470'' = Some tcin \<and> isValidTcin tcin
          \<and> fst (getFullProductByTcin example_env (\<lambda>req. Inr empty_body) 0 tcin no_options
                   (initial_state 3600 60)) = Inr productData
          \<and> productData \<noteq> JNull
          \<and> if_truthy (get_prop productData ''product'') = None"
    using ok valid missing by blast
  then have one: "http_status (fst (getProductByTcin_handler example_env (\<lambda>req. Inr empty_body) 0
                      (Some ''78025470'') (initial_state 3600 60))) = 404"
    by (rule first [THEN iffD2])
  have "\<not> (\<exists>tcin productData. Some ''78025470'' = Some tcin \<and> isValidTcin tcin
          \<and> fst (getFullProductByTcin example_env (\<lambda>req. Inl not_found_404) 0 tcin no_options
                   (initial_state 3600 60)) = Inr productData
          \<and> productData \<noteq> JNull
          \<and> if_truthy (get_prop productData ''product'') = None)"
    using failed by blast
  then have two: "http_status (fst (getProductByTcin_handler example_env (\<lambda>req. Inl not_found_404) 0
                      (Some ''78025470'') (initial_state 3600 60))) \<noteq> 404"
    unfolding second .
  from one two show ?thesis ..
qed

text \<open>
  Claim C9, as stated, fails: the upstream answers the valid TCIN \<open>78025470\<close> with status
  200 and the body \<open>null\<close>.  The client call succeeds and the body has no \<open>product\<close>
  field, but reading \<open>productData.product\<close> throws and the handler answers 500 with
  \<open>INTERNAL_ERROR\<close>, not 404.  In the other direction, a body whose \<open>product\<close> field is
  there with the value \<open>null\<close> is answered 404.
\<close>

theorem product_handler_null_body_gives_500:
  "fst (getFullProductByTcin example_env (\<lambda>req. Inr JNull) 0 ''78025470'' no_options
          (initial_state 3600 60)) = Inr JNull
   \<and> get_prop JNull ''product'' = None
   \<and> fst (getProductByTcin_handler example_env (\<lambda>req. Inr JNull) 0 (Some ''78025470'')
          (initial_state 3600 60))
     = \<lparr>http_status = 500,
        http_body = ErrorEnvelope
          \<lparr>eb_code = ''INTERNAL_ERROR'', eb_message = ''Failed to fetch product information'',
           eb_field = None, eb_details = None\<rparr>\<rparr>
   \<and> fst (getProductByTcin_handler example_env
            (\<lambda>req. Inr (JObj [(''product'', JNull)])) 0 (Some ''78025470'')
            (initial_state 3600 60))
     = \<lparr>http_status = 404,
        http_body = ErrorEnvelope
          \<lparr>eb_code = ''PRODUCT_NOT_FOUND'',
           eb_message = ''Product with TCIN 78025470 not found'',
           eb_field = None, eb_details = None\<rparr>\<rparr>"
  by (simp add: getProductByTcin_handler_def getProductByTcin_try_def isValidTcin_def is_digit_def
        getFullProductByTcin_def no_options_def getCachedValue_def initial_state_def
        axios_get_def if_truthy_def product_reply_def read_property_def catch_reply_def
        example_env_def)

text \<open>
  Claim C1 at a concrete input: the identifier \<open>78025470\<close> passes validation, the cache is
  empty and the upstream answers with HTTP status 404.  The client classifies the
  failure as \<open>PRODUCT_NOT_FOUND\<close> with status 404 in its details, but the handler's
  \<open>catch\<close> block answers with status 500 and code \<open>INTERNAL_ERROR\<close>; likewise for the
  barcode handler.
\<close>

theorem product_handlers_upstream_404_gives_500:
  "fst (getProductByTcin_handler example_env (\<lambda>req. Inl not_found_404) 0 (Some ''78025470'')
          (initial_state 3600 60))
     = \<lparr>http_status = 500,
        http_body = ErrorEnvelope
          \<lparr>eb_code = ''INTERNAL_ERROR'', eb_message = ''Failed to fetch product information'',
           eb_field = None, eb_details = None\<rparr>\<rparr>
   \<and> fst (getFullProductByTcin example_env (\<lambda>req. Inl not_found_404) 0 ''78025470'' no_options
          (initial_state 3600 60))
     = Inl \<lparr>err_message = ''Product not found: TCIN 78025470'',
            err_code = CodeStr ''PRODUCT_NOT_FOUND'',
            err_details = \<lparr>d_context = Some ''TCIN 78025470'', d_status = Some 404,
                           d_retryAfter = None, d_originalError = None\<rparr>\<rparr>
   \<and> fst (getProductByUpc example_env (\<lambda>req. Inl not_found_404) 0 (Some ''012345678905'')
          (initial_state 3600 60))
     = \<lparr>http_status = 500,
        http_body = ErrorEnvelope
          \<lparr>eb_code = ''INTERNAL_ERROR'', eb_message = ''Failed to fetch product information'',
           eb_field = None, eb_details = None\<rparr>\<rparr>"
  by (simp add: getProductByTcin_handler_def getProductByTcin_try_def getProductByUpc_def
        getProductByUpc_try_def isValidTcin_def isValidGtin_def is_digit_def
        getFullProductByTcin_def getProductByGtin_def no_options_def getCachedValue_def
        initial_state_def axios_get_def not_found_404_def handleApiError_def errorCode_of_def
        context_suffix_def catch_reply_def example_env_def if_truthy_def)

subsection \<open>Search handler\<close>

lemma trim_Nil: "trim [] = []"
  by (simp add: trim_def)

lemma searchProductsHandler_try_string:
  "searchProductsHandler_try env up now \<lparr>q = Some (QString t), page_param = pp, sort_param = so\<rparr> s =
     (if trim t = [] then (Inl (search_term_error (Some (JStr t))), s)
      else if invalid_page (requested_page pp) then (Inl (page_error pp), s)
      else
        (case searchProducts env up now (trim t)
                \<lparr>skipCache = False, timeout = None, page = Some (requested_page pp),
                 sortBy = so\<rparr> s of
           (Inl error, s1) \<Rightarrow> (Inl (ApiError error), s1)
         | (Inr searchResults, s1) \<Rightarrow> (search_reply (requested_page pp) searchResults, s1)))"
  by (auto simp: searchProductsHandler_try_def trim_Nil split: prod.splits sum.splits)

lemma search_reply_no_results:
  "searchResults \<noteq> JNull \<Longrightarrow>
   get_prop searchResults ''search_results'' = None
     \<or> get_prop searchResults ''search_results'' = Some (JArr []) \<Longrightarrow>
   search_reply pg searchResults = Inr (no_results_reply pg)"
  by (auto simp: search_reply_def read_property_def if_truthy_def)

text \<open>
  Claim C7, amended: when the search term is a string that is not empty after trimming,
  the page is valid, and the client call returns a body other than \<open>null\<close> whose
  \<open>search_results\<close> is absent or an empty array, the search handler answers with status
  200 and the success envelope holding an empty result list and the pagination
  \<open>current_page\<close> = the number \<open>parseInt\<close> reads from the page parameter (1 without one),
  \<open>total_pages\<close> = 0, \<open>total_results\<close> = 0.
\<close>

theorem searchProductsHandler_no_results:
  assumes "q query = Some (QString searchTerm)"
    and "trim searchTerm \<noteq> []"
    and "\<not> invalid_page (requested_page (page_param query))"
    and "fst (searchProducts env up now (trim searchTerm)
           \<lparr>skipCache = False, timeout = None,
            page = Some (requested_page (page_param query)), sortBy = sort_param query\<rparr> s)
         = Inr searchResults"
    and "searchResults \<noteq> JNull"
    and "get_prop searchResults ''search_results'' = None
         \<or> get_prop searchResults ''search_results'' = Some (JArr [])"
  shows "fst (searchProductsHandler env up now query s) =
           \<lparr>http_status = 200,
            http_body = SuccessEnvelope
              (NoResultsData []
                 \<lparr>current_page = requested_page (page_param query),
                  total_pages = 0, total_results = 0\<rparr>
                 ''No products found matching your search'')
              None None None\<rparr>"
proof -
  from assms(2) have ne: "searchTerm \<noteq> []"
    by (auto simp: trim_def)
  have reply: "search_reply (requested_page (page_param query)) searchResults
                 = Inr (no_results_reply (requested_page (page_param query)))"
    using assms(5,6) by (rule search_reply_no_results)
  obtain r s1 where call: "searchProducts env up now (trim searchTerm)
           \<lparr>skipCache = False, timeout = None,
            page = Some (requested_page (page_param query)), sortBy = sort_param query\<rparr> s
         = (r, s1)"
    by (cases "searchProducts env up now (trim searchTerm)
           \<lparr>skipCache = False, timeout = None,
            page = Some (requested_page (page_param query)), sortBy = sort_param query\<rparr> s")
  with assms(4) have r: "r = Inr searchResults"
    by simp
  from assms(1,2,3) ne call r reply show ?thesis
    by (simp add: searchProductsHandler_def searchProductsHandler_try_def no_results_reply_def)
qed

lemma to_double_small: "n < 2 ^ 53 \<Longrightarrow> to_double n = Some n"
  by (simp add: to_double_def)

lemma parseInt_3: "parseInt ''3'' = Fin 3"
  by (simp add: parseInt_def is_space_def is_digit_def digit_value_def to_double_small)

lemma bit_length_bounds: "2 ^ k \<le> n \<Longrightarrow> n < 2 ^ Suc k \<Longrightarrow> bit_length n = Suc k"
proof (induction k arbitrary: n)
  case 0
  then have "n = 1" by simp
  then show ?case by (simp add: bit_length.simps)
next
  case (Suc k)
  from Suc.prems have "2 ^ k \<le> n div 2" "n div 2 < 2 ^ Suc k"
    by auto
  then have "bit_length (n div 2) = Suc k"
    by (rule Suc.IH)
  moreover from Suc.prems have "n \<noteq> 0"
    by auto
  ultimately show ?case
    by (simp add: bit_length.simps [of n])
qed

lemma to_double_above_2_53: "to_double 9007199254740993 = Some 9007199254740992"
proof -
  have "bit_length 9007199254740993 = Suc 53"
    by (rule bit_length_bounds) simp_all
  then show ?thesis
    by (simp add: to_double_def Let_def)
qed

lemma parseInt_above_2_53: "parseInt ''9007199254740993'' = Fin 9007199254740992"
  by (simp add: parseInt_def is_space_def is_digit_def digit_value_def to_double_above_2_53)

theorem searchProductsHandler_no_results_witness:
  "fst (searchProductsHandler example_env (\<lambda>req. Inr empty_body) 0
      \<lparr>q = Some (QString '' zzzz ''), page_param = Some ''3'', sort_param = None\<rparr>
      (initial_state 3600 60))
   = \<lparr>http_status = 200,
      http_body = SuccessEnvelope
        (NoResultsData []
           \<lparr>current_page = Fin 3, total_pages = 0, total_results = 0\<rparr>
           ''No products found matching your search'')
        None None None\<rparr>"
proof -
  have t: "trim '' zzzz '' = ''zzzz''"
    by (simp add: trim_def is_space_def)
  have p: "requested_page (Some ''3'') = Fin 3"
    by (simp add: requested_page_def parseInt_3)
  have call: "fst (searchProducts example_env (\<lambda>req. Inr empty_body) 0 (trim '' zzzz '')
             \<lparr>skipCache = False, timeout = None,
              page = Some (requested_page (page_param
                 \<lparr>q = Some (QString '' zzzz ''), page_param = Some ''3'', sort_param = None\<rparr>)),
              sortBy = sort_param
                 \<lparr>q = Some (QString '' zzzz ''), page_param = Some ''3'', sort_param = None\<rparr>\<rparr>
             (initial_state 3600 60))
        = Inr empty_body"
    by (simp add: t searchProducts_def getCachedValue_def initial_state_def axios_get_def
          if_truthy_def)
  have "fst (searchProductsHandler example_env (\<lambda>req. Inr empty_body) 0
      \<lparr>q = Some (QString '' zzzz ''), page_param = Some ''3'', sort_param = None\<rparr>
      (initial_state 3600 60))
   = \<lparr>http_status = 200,
      http_body = SuccessEnvelope
        (NoResultsData []
           \<lparr>current_page = requested_page (page_param
                 \<lparr>q = Some (QString '' zzzz ''), page_param = Some ''3'', sort_param = None\<rparr>),
            total_pages = 0, total_results = 0\<rparr>
           ''No products found matching your search'')
        None None None\<rparr>"
    by (rule searchProductsHandler_no_results [OF _ _ _ call])
       (simp_all add: t p empty_body_def invalid_page_def)
  then show ?thesis by (simp add: p)
qed

text \<open>
  Claim C7, as stated, fails: with the valid term \<open>pens\<close> and no page parameter, an
  upstream answer of status 200 with the body \<open>null\<close> has no \<open>search_results\<close>, but
  reading \<open>searchResults.search_results\<close> throws and the handler answers 500 with
  \<open>INTERNAL_ERROR\<close>.  And for the page parameter \<open>9007199254740993\<close> the empty-result
  answer reports \<open>current_page\<close> = 9007199254740992, the nearest double.
\<close>

theorem searchProductsHandler_null_body_gives_500:
  "fst (searchProducts example_env (\<lambda>req. Inr JNull) 0 ''pens''
          \<lparr>skipCache = False, timeout = None, page = Some (Fin 1), sortBy = None\<rparr>
          (initial_state 3600 60)) = Inr JNull
   \<and> get_prop JNull ''search_results'' = None
   \<and> fst (searchProductsHandler example_env (\<lambda>req. Inr JNull) 0
            \<lparr>q = Some (QString ''pens''), page_param = None, sort_param = None\<rparr>
            (initial_state 3600 60))
     = \<lparr>http_status = 500,
        http_body = ErrorEnvelope
          \<lparr>eb_code = ''INTERNAL_ERROR'', eb_message = ''Failed to search products'',
           eb_field = None, eb_details = None\<rparr>\<rparr>
   \<and> fst (searchProductsHandler example_env (\<lambda>req. Inr empty_body) 0
            \<lparr>q = Some (QString ''pens''), page_param = Some ''9007199254740993'',
             sort_param = None\<rparr>
            (initial_state 3600 60))
     = \<lparr>http_status = 200,
        http_body = SuccessEnvelope
          (NoResultsData []
             \<lparr>current_page = Fin 9007199254740992, total_pages = 0, total_results = 0\<rparr>
             ''No products found matching your search'')
          None None None\<rparr>"
proof -
  have t: "trim ''pens'' = ''pens''"
    by (simp add: trim_def is_space_def)
  show ?thesis
    by (simp add: searchProductsHandler_def searchProductsHandler_try_string t
          requested_page_def invalid_page_def parseInt_above_2_53
          searchProducts_def getCachedValue_def initial_state_def axios_get_def if_truthy_def
          search_reply_def read_property_def no_results_reply_def catch_reply_def
          example_env_def empty_body_def)
qed

lemma dropWhile_spaces_append:
  "list_all is_space l \<Longrightarrow> dropWhile is_space (l @ xs) = dropWhile is_space xs"
  by (induction l) auto

lemma trim_padded:
  assumes "list_all is_space l" and "list_all is_space r"
  shows "trim (l @ c @ r) = trim c"
proof (cases "list_all is_space c")
  case True
  with assms have "list_all is_space (l @ c @ r)"
    by simp
  then have A: "dropWhile is_space (l @ c @ r) = []"
    unfolding list_all_iff dropWhile_eq_Nil_conv .
  from True have B: "dropWhile is_space c = []"
    unfolding list_all_iff dropWhile_eq_Nil_conv .
  show ?thesis unfolding trim_def A B by simp
next
  case False
  then obtain x where x: "x \<in> set c" "\<not> is_space x"
    by (auto simp: list_all_iff)
  then have "dropWhile is_space (c @ r) = dropWhile is_space c @ r"
    by (simp add: dropWhile_append1)
  moreover from x have "dropWhile is_space c \<noteq> []"
    by auto
  moreover from assms(2) have "list_all is_space (rev r)"
    by (simp add: list_all_iff)
  ultimately show ?thesis
    using assms(1) by (simp add: trim_def dropWhile_spaces_append)
qed

lemma searchProductsHandler_blank:
  "trim t = [] \<Longrightarrow>
   snd (searchProductsHandler env up now \<lparr>q = Some (QString t), page_param = pp, sort_param = so\<rparr> s) = s"
  by (simp add: searchProductsHandler_def searchProductsHandler_try_string)

lemma searchProductsHandler_same_trim:
  "trim t1 = trim t2 \<Longrightarrow> trim t2 \<noteq> [] \<Longrightarrow>
   searchProductsHandler env up now \<lparr>q = Some (QString t1), page_param = pp, sort_param = so\<rparr> s
     = searchProductsHandler env up now \<lparr>q = Some (QString t2), page_param = pp, sort_param = so\<rparr> s"
  by (simp add: searchProductsHandler_def searchProductsHandler_try_string)

text \<open>
  Claim C10: two search requests whose \<open>q\<close> is the same text padded with white space on
  either side, and which agree on page and sort, have the same trimmed term, hence the
  same upstream parameters and the same cache key; the handler passes that trimmed term
  to \<open>searchProducts\<close>, leaves the same state behind for both and, unless the term is
  blank (when the rejected value reported differs), gives both the same answer.
\<close>

theorem searchProductsHandler_trims_search_term:
  assumes "list_all is_space l1" and "list_all is_space r1"
    and "list_all is_space l2" and "list_all is_space r2"
  shows "trim (l1 @ c @ r1) = trim (l2 @ c @ r2)
     \<and> search_params env (trim (l1 @ c @ r1)) options = search_params env (trim (l2 @ c @ r2)) options
     \<and> search_cacheKey (trim (l1 @ c @ r1)) options = search_cacheKey (trim (l2 @ c @ r2)) options
     \<and> snd (searchProductsHandler env up now
              \<lparr>q = Some (QString (l1 @ c @ r1)), page_param = pp, sort_param = so\<rparr> s)
       = snd (searchProductsHandler env up now
              \<lparr>q = Some (QString (l2 @ c @ r2)), page_param = pp, sort_param = so\<rparr> s)
     \<and> (trim c \<noteq> [] \<longrightarrow>
          searchProductsHandler env up now
              \<lparr>q = Some (QString (l1 @ c @ r1)), page_param = pp, sort_param = so\<rparr> s
          = searchProductsHandler env up now
              \<lparr>q = Some (QString (l2 @ c @ r2)), page_param = pp, sort_param = so\<rparr> s)
     \<and> (trim c \<noteq> [] \<and> \<not> invalid_page (requested_page pp) \<longrightarrow>
          searchProductsHandler_try env up now
              \<lparr>q = Some (QString (l1 @ c @ r1)), page_param = pp, sort_param = so\<rparr> s
          = (case searchProducts env up now (trim c)
                   \<lparr>skipCache = False, timeout = None, page = Some (requested_page pp),
                    sortBy = so\<rparr> s of
               (Inl error, s1) \<Rightarrow> (Inl (ApiError error), s1)
             | (Inr searchResults, s1) \<Rightarrow>
                 (search_reply (requested_page pp) searchResults, s1)))"
proof -
  have t1: "trim (l1 @ c @ r1) = trim c"
    using assms(1,2) by (rule trim_padded)
  have t2: "trim (l2 @ c @ r2) = trim c"
    using assms(3,4) by (rule trim_padded)
  have states: "snd (searchProductsHandler env up now
              \<lparr>q = Some (QString (l1 @ c @ r1)), page_param = pp, sort_param = so\<rparr> s)
       = snd (searchProductsHandler env up now
              \<lparr>q = Some (QString (l2 @ c @ r2)), page_param = pp, sort_param = so\<rparr> s)"
  proof (cases "trim c = []")
    case True
    then show ?thesis by (simp add: searchProductsHandler_blank t1 t2)
  next
    case False
    then show ?thesis
      using searchProductsHandler_same_trim [of "l1 @ c @ r1" "l2 @ c @ r2" env up now pp so s]
      by (simp add: t1 t2)
  qed
  have replies: "trim c \<noteq> [] \<longrightarrow>
          searchProductsHandler env up now
              \<lparr>q = Some (QString (l1 @ c @ r1)), page_param = pp, sort_param = so\<rparr> s
          = searchProductsHandler env up now
              \<lparr>q = Some (QString (l2 @ c @ r2)), page_param = pp, sort_param = so\<rparr> s"
    using searchProductsHandler_same_trim [of "l1 @ c @ r1" "l2 @ c @ r2" env up now pp so s]
    by (simp add: t1 t2)
  have call: "trim c \<noteq> [] \<and> \<not> invalid_page (requested_page pp) \<longrightarrow>
          searchProductsHandler_try env up now
              \<lparr>q = Some (QString (l1 @ c @ r1)), page_param = pp, sort_param = so\<rparr> s
          = (case searchProducts env up now (trim c)
                   \<lparr>skipCache = False, timeout = None, page = Some (requested_page pp),
                    sortBy = so\<rparr> s of
               (Inl error, s1) \<Rightarrow> (Inl (ApiError error), s1)
             | (Inr searchResults, s1) \<Rightarrow>
                 (search_reply (requested_page pp) searchResults, s1))"
    by (simp add: searchProductsHandler_try_string t1)
  from t1 t2 states replies call show ?thesis by simp
qed

lemma trim_example: "trim ''  pens '' = ''pens''" "trim ''pens'' = ''pens''"
  by (simp_all add: trim_def is_space_def)


theorem searchProductsHandler_trims_search_term_witness:
  "searchProductsHandler example_env (\<lambda>req. Inr example_body) 0
      \<lparr>q = Some (QString ''  pens ''), page_param = Some ''2'', sort_param = None\<rparr>
      (initial_state 3600 60)
   = searchProductsHandler example_env (\<lambda>req. Inr example_body) 0
      \<lparr>q = Some (QString ''pens''), page_param = Some ''2'', sort_param = None\<rparr>
      (initial_state 3600 60)
   \<and> trim ''  pens '' = trim ''pens''"
  using searchProductsHandler_trims_search_term
          [of "''  ''" "'' ''" "[]" "[]" "''pens''" example_env
              "\<lparr>skipCache = False, timeout = None, page = Some (Fin 2), sortBy = None\<rparr>"
              "\<lambda>req. Inr example_body" 0 "Some ''2''" None "initial_state 3600 60"]
  by (simp add: is_space_def trim_example)

section \<open>Properties of the bulk operations\<close>








lemma if_truthy_None: "if_truthy found = None \<longleftrightarrow> (\<forall>v. found = Some v \<longrightarrow> \<not> truthy v)"
  by (auto simp: if_truthy_def split: option.splits)









end
